theory Spec2Isabelle
  imports Complex_Main "HOL-Library.Multiset"
begin

section \<open>JavaScript values and HTTP responses\<close>

text \<open>
  The handlers read fields of a parsed JSON request body and compare them with
  \<^verbatim>\<open>===\<close> or test them with \<^verbatim>\<open>!\<close>. The values modelled are the primitives a
  JSON body can hold, plus \<^verbatim>\<open>undefined\<close> for a field that is absent. On these,
  \<^verbatim>\<open>===\<close> is equality of the values. Objects and arrays, which \<^verbatim>\<open>===\<close> compares
  by reference, and NaN, which JSON cannot carry, are outside the model. Numbers are
  rationals; how a JSON numeral is rounded to a double is not modelled.
\<close>

datatype jsval = JUndefined | JNull | JBool bool | JNum rat | JStr string

text \<open>JavaScript's ToBoolean: \<^verbatim>\<open>!v\<close> is \<open>\<not> truthy v\<close>.\<close>

fun truthy :: "jsval \<Rightarrow> bool" where
  "truthy JUndefined = False"
| "truthy JNull = False"
| "truthy (JBool b) = b"
| "truthy (JNum n) = (n \<noteq> 0)"
| "truthy (JStr s) = (s \<noteq> [])"

text \<open>
  \<^verbatim>\<open>req.body\<close>: reading a property that the object lacks gives \<^verbatim>\<open>undefined\<close>.
\<close>

type_synonym body = "string \<Rightarrow> jsval"

definition emptyBody :: body where
  "emptyBody = (\<lambda>_. JUndefined)"

text \<open>
  \<^verbatim>\<open>res.status(n).json(obj)\<close>: the status code and the properties of the object sent,
  in the order the literal lists them.
\<close>

type_synonym response = "nat \<times> (string \<times> jsval) list"

section \<open>authController.js\<close>

text \<open>An element of \<^verbatim>\<open>validCredentials\<close>: \<^verbatim>\<open>{ username, password }\<close>.\<close>

record credential =
  username :: jsval
  password :: jsval

text \<open>The module-level array as it is when the module is loaded.\<close>

definition validCredentials :: "credential list" where
  "validCredentials =
     [\<lparr>username = JStr ''user_name123'', password = JStr ''Password123!''\<rparr>,
      \<lparr>username = JStr ''user2'', password = JStr ''password2@''\<rparr>]"

text \<open>\<^verbatim>\<open>generateToken(username)\<close> ignores its argument.\<close>

definition generateToken :: "jsval \<Rightarrow> string" where
  "generateToken uname = ''exampleToken''"

text \<open>
  \<^verbatim>\<open>login(req, res)\<close>. The array is only read, so the function takes its current
  contents and returns the response. \<^verbatim>\<open>Array.prototype.some\<close> is \<^const>\<open>list_ex\<close>.
  Nothing in the \<^verbatim>\<open>try\<close> block can throw on the values modelled, so the
  \<^verbatim>\<open>catch\<close> branch (status 500) is never taken; the \<^verbatim>\<open>console.log\<close> lines are not
  part of the response and are left out.
\<close>

definition login :: "credential list \<Rightarrow> body \<Rightarrow> response" where
  "login creds reqBody =
     (let uname = reqBody ''username'';
          pword = reqBody ''password'';
          isValidUser = list_ex (\<lambda>cred. username cred = uname \<and> password cred = pword) creds
      in if isValidUser
         then (200, [(''token'', JStr (generateToken uname))])
         else (401, [(''error'', JStr ''Invalid username or password'')]))"

text \<open>
  \<^verbatim>\<open>register(req, res)\<close>: the response and the contents of the array afterwards
  (\<^verbatim>\<open>push\<close> appends at the end).
\<close>

definition register :: "credential list \<Rightarrow> body \<Rightarrow> response \<times> credential list" where
  "register creds reqBody =
     (let uname = reqBody ''username'';
          pword = reqBody ''password'';
          isUsernameTaken = list_ex (\<lambda>cred. username cred = uname) creds
      in if isUsernameTaken
         then ((409, [(''error'', JStr ''Username already taken'')]), creds)
         else ((201, [(''message'', JStr ''User registered successfully'')]),
               creds @ [\<lparr>username = uname, password = pword\<rparr>]))"

section \<open>Request validation middleware\<close>

text \<open>A middleware either answers the request itself or calls \<^verbatim>\<open>next()\<close>.\<close>

datatype middleware_result = Respond response | Next

definition validateLogin :: "body \<Rightarrow> middleware_result" where
  "validateLogin reqBody =
     (if \<not> truthy (reqBody ''username'') \<or> \<not> truthy (reqBody ''password'')
      then Respond (400, [(''error'', JStr ''Username and password are required'')])
      else Next)"

definition validateRegistration :: "body \<Rightarrow> middleware_result" where
  "validateRegistration reqBody =
     (if \<not> truthy (reqBody ''username'') \<or> \<not> truthy (reqBody ''password'')
      then Respond (400, [(''error'', JStr ''Username and password are required'')])
      else Next)"

definition validateProfileUpdate :: "body \<Rightarrow> middleware_result" where
  "validateProfileUpdate reqBody =
     (if \<not> truthy (reqBody ''fullName'') \<or> \<not> truthy (reqBody ''address1'') \<or>
         \<not> truthy (reqBody ''city'') \<or> \<not> truthy (reqBody ''state'') \<or>
         \<not> truthy (reqBody ''zipcode'')
      then Respond (400, [(''error'', JStr ''Full name, address, city, state, and zipcode are required'')])
      else Next)"

definition validateFuelQuote :: "body \<Rightarrow> middleware_result" where
  "validateFuelQuote reqBody =
     (if \<not> truthy (reqBody ''gallonsRequested'') \<or> \<not> truthy (reqBody ''deliveryDate'')
      then Respond (400, [(''error'', JStr ''Gallons requested and delivery date are required'')])
      else Next)"

text \<open>
  A JSON body \<^verbatim>\<open>{ username: u, password: p }\<close> with two strings, for concrete
  requests.
\<close>

definition authBody :: "string \<Rightarrow> string \<Rightarrow> body" where
  "authBody u p = emptyBody(''username'' := JStr u, ''password'' := JStr p)"

section \<open>Quote pricing and the quote store\<close>

text \<open>
  \<^verbatim>\<open>controllers/userController.js\<close>, \<^verbatim>\<open>controllers/pricing.js\<close> and
  \<^verbatim>\<open>models/db.js\<close> are required by \<^verbatim>\<open>userController.test.js\<close> but are not among
  the sources. What follows models them from the specification (sections 3, 4.2, 4.3,
  6 and 7) and from what the test file shows of them: the names of the two pricing
  methods, the SQL text of the history query, the shape of the response bodies.
  Amounts are rationals; the binary floating point of JavaScript numbers is not
  modelled.
\<close>

text \<open>
  Modelled from the spec: \<open>round2\<close>, rounding to two decimal places, which the
  specification names but does not define. Taken as \<^verbatim>\<open>Math.round(x * 100) / 100\<close>:
  the nearest hundredth, a tie going up (\<^const>\<open>round\<close> is \<open>\<lfloor>x + 1/2\<rfloor>\<close>).
\<close>

definition round2 :: "rat \<Rightarrow> rat" where
  "round2 x = of_int (round (x * 100)) / 100"

text \<open>
  Modelled from the spec: the rate table of \<^verbatim>\<open>pricing.js\<close>, which is missing. The
  specification says that a base rate, a location surcharge, a volume-tier adjustment
  and a loyalty discount are combined in a fixed order and leaves the coefficients to
  the implementation, so the combination is a parameter: the unrounded price per
  gallon for the gallons requested, the destination state, the delivery date and the
  history flag.
\<close>

type_synonym rate_table = "rat \<Rightarrow> string \<Rightarrow> string \<Rightarrow> bool \<Rightarrow> rat"

text \<open>
  Modelled from the spec: PricingEngine (\<^verbatim>\<open>pricing.js\<close> is missing; the test names
  its methods \<^verbatim>\<open>calculatePricePerGallon\<close> and \<^verbatim>\<open>calculateTotalPrice\<close>). The price per
  gallon is rounded once, at the end; the total is computed from the rounded price.
\<close>

definition calculatePricePerGallon :: "rate_table \<Rightarrow> rat \<Rightarrow> string \<Rightarrow> string \<Rightarrow> bool \<Rightarrow> rat" where
  "calculatePricePerGallon rates gallons dest date hasHistory =
     round2 (rates gallons dest date hasHistory)"

definition calculateTotalPrice :: "rat \<Rightarrow> rat \<Rightarrow> rat" where
  "calculateTotalPrice price gallons = round2 (price * gallons)"

text \<open>
  Modelled from the spec: the Quote record of section 3, a row of the table
  \<^verbatim>\<open>fuel_quote\<close> that the history query reads. \<open>created_at\<close> is a timestamp.
\<close>

record quote =
  quote_id :: nat
  userID :: nat
  gallonsRequested :: rat
  deliveryAddress :: string
  deliveryDate :: string
  pricePerGallon :: rat
  totalAmountDue :: rat
  created_at :: nat

text \<open>
  Modelled from the spec: the persistence collaborator of section 6 (\<^verbatim>\<open>models/db.js\<close>
  and the database are missing). \<open>user_credentials\<close> pairs each username with the
  internal user id; \<open>insertId\<close> is the id the next inserted quote gets.
\<close>

record store =
  user_credentials :: "(string \<times> nat) list"
  fuel_quote :: "quote list"
  insertId :: nat

text \<open>
  Modelled from the spec: storage faults (section 7). These are the calls a handler
  makes to the store; any of them can fail, and \<open>faults\<close> says which do during
  one request.
\<close>

datatype db_call = FindAccount | CountQuotes | InsertQuote | ListQuotes

type_synonym faults = "db_call \<Rightarrow> bool"

definition noFaults :: faults where
  "noFaults = (\<lambda>_. False)"

text \<open>
  Modelled from the spec: the operations of the persistence contract (section 6) that
  the quote operations use, on the store above.
\<close>

definition findAccountByUsername :: "store \<Rightarrow> string \<Rightarrow> nat option" where
  "findAccountByUsername db uname = map_of (user_credentials db) uname"

definition countQuotesForUser :: "store \<Rightarrow> nat \<Rightarrow> nat" where
  "countQuotesForUser db uid = length (filter (\<lambda>q. userID q = uid) (fuel_quote db))"

definition insertQuote :: "store \<Rightarrow> nat \<Rightarrow> nat \<Rightarrow> rat \<Rightarrow> string \<Rightarrow> string \<Rightarrow> rat \<Rightarrow> rat \<Rightarrow> quote \<times> store" where
  "insertQuote db now uid gallons address date price due =
     (let q = \<lparr>quote_id = insertId db, userID = uid, gallonsRequested = gallons,
                deliveryAddress = address, deliveryDate = date, pricePerGallon = price,
                totalAmountDue = due, created_at = now\<rparr>
      in (q, db\<lparr>fuel_quote := fuel_quote db @ [q], insertId := Suc (insertId db)\<rparr>))"

text \<open>
  Modelled from the spec: \<open>listQuotesForUser\<close> with \<^verbatim>\<open>ORDER BY created_at DESC\<close>,
  most recent first.
\<close>

definition listQuotesForUser :: "store \<Rightarrow> nat \<Rightarrow> quote list" where
  "listQuotesForUser db uid = rev (sort_key created_at (filter (\<lambda>q. userID q = uid) (fuel_quote db)))"

text \<open>
  Modelled from the spec: the failures of section 7 that the two quote operations can
  end in.
\<close>

datatype core_error = UserNotFound | PersistenceError

text \<open>
  Modelled from the spec: \<^verbatim>\<open>createQuote\<close> of QuoteCore (\<^verbatim>\<open>userController.js\<close> is
  missing). It resolves the username, fails with \<open>UserNotFound\<close> if there is no such
  account, takes \<open>hasHistory\<close> from whether the user has a quote already, prices the
  request, stores the quote and returns it as stored. A fault of the store at the
  lookup, the history check or the insert ends it with \<open>PersistenceError\<close> and
  nothing stored. \<open>now\<close> is the time the store stamps on the row.
\<close>

definition createQuote ::
  "rate_table \<Rightarrow> faults \<Rightarrow> nat \<Rightarrow> store \<Rightarrow> string \<Rightarrow> rat \<Rightarrow> string \<Rightarrow> string \<Rightarrow> string
     \<Rightarrow> (core_error + quote) \<times> store" where
  "createQuote rates fault now db uname gallons address date dest =
     (if fault FindAccount then (Inl PersistenceError, db)
      else case findAccountByUsername db uname of
        None \<Rightarrow> (Inl UserNotFound, db)
      | Some uid \<Rightarrow>
          if fault CountQuotes then (Inl PersistenceError, db)
          else
            let hasHistory = (0 < countQuotesForUser db uid);
                price = calculatePricePerGallon rates gallons dest date hasHistory;
                due = calculateTotalPrice price gallons
            in if fault InsertQuote then (Inl PersistenceError, db)
               else case insertQuote db now uid gallons address date price due of
                      (q, db') \<Rightarrow> (Inr q, db'))"

text \<open>
  Modelled from the spec: the response for the outcome of \<^verbatim>\<open>createQuote\<close>, with the
  statuses of section 6 and the bodies the test file expects.
\<close>

fun createQuoteResponse :: "core_error + quote \<Rightarrow> response" where
  "createQuoteResponse (Inr q) =
     (201, [(''quote_id'', JNum (of_nat (quote_id q))),
            (''userID'', JNum (of_nat (userID q))),
            (''gallonsRequested'', JNum (gallonsRequested q)),
            (''deliveryAddress'', JStr (deliveryAddress q)),
            (''deliveryDate'', JStr (deliveryDate q)),
            (''pricePerGallon'', JNum (pricePerGallon q)),
            (''totalAmountDue'', JNum (totalAmountDue q))])"
| "createQuoteResponse (Inl UserNotFound) = (404, [(''error'', JStr ''User not found'')])"
| "createQuoteResponse (Inl PersistenceError) = (500, [(''error'', JStr ''Internal server error'')])"

text \<open>
  Modelled from the spec: \<^verbatim>\<open>getQuoteHistory\<close> of QuoteCore (\<^verbatim>\<open>userController.js\<close> is
  missing). The test file gives its one query,
  \<^verbatim>\<open>SELECT * FROM fuel_quote WHERE userID = (SELECT userID FROM user_credentials WHERE username = ?) ORDER BY created_at DESC\<close>.
  For a username with no account the inner query is NULL and no row matches.
\<close>

definition getQuoteHistory :: "faults \<Rightarrow> store \<Rightarrow> string \<Rightarrow> core_error + quote list" where
  "getQuoteHistory fault db uname =
     (if fault ListQuotes then Inl PersistenceError
      else case findAccountByUsername db uname of
             None \<Rightarrow> Inr []
           | Some uid \<Rightarrow> Inr (listQuotesForUser db uid))"

text \<open>
  Modelled from the spec: the status of the response, 200 with the rows and 500 on a
  storage fault (section 6).
\<close>

fun getQuoteHistoryStatus :: "core_error + quote list \<Rightarrow> nat" where
  "getQuoteHistoryStatus (Inr rows) = 200"
| "getQuoteHistoryStatus (Inl e) = 500"

section \<open>Example data\<close>

text \<open>
  A store with three accounts and three quotes, two of them owned by "testuser", as
  a concrete input.
\<close>

definition exampleQuote :: "nat \<Rightarrow> nat \<Rightarrow> nat \<Rightarrow> quote" where
  "exampleQuote qid uid t =
     \<lparr>quote_id = qid, userID = uid, gallonsRequested = 150, deliveryAddress = ''123 Main St'',
      deliveryDate = ''2024-04-10'', pricePerGallon = 174 / 100, totalAmountDue = 261,
      created_at = t\<rparr>"

definition exampleStore :: store where
  "exampleStore =
     \<lparr>user_credentials = [(''testuser'', 1), (''otheruser'', 2), (''newuser'', 3)],
      fuel_quote = [exampleQuote 1 1 10, exampleQuote 2 2 20, exampleQuote 3 1 30],
      insertId = 4\<rparr>"

section \<open>Properties of authController.js\<close>

lemma list_ex_append_single:
  "list_ex P (xs @ [x]) = (list_ex P xs \<or> P x)"
  by (auto simp: list_ex_iff)

lemma register_makes_taken:
  "list_ex (\<lambda>cred. username cred = reqBody ''username'') (snd (register creds reqBody))"
  by (simp add: register_def Let_def list_ex_append_single)

lemma authBody_fields:
  "authBody u p ''username'' = JStr u" "authBody u p ''password'' = JStr p"
  by (simp_all add: authBody_def)

text \<open>
  C3. Whatever the array holds and whatever the first call answers, a second
  \<^verbatim>\<open>register\<close> with the same username answers 409 "Username already taken" and
  leaves the array, and so the credential kept for that username, as the first
  call left it.
\<close>

theorem register_twice_conflict:
  "reqBody2 ''username'' = reqBody1 ''username'' \<Longrightarrow>
   register (snd (register creds reqBody1)) reqBody2 =
     ((409, [(''error'', JStr ''Username already taken'')]), snd (register creds reqBody1))"
  using register_makes_taken [of reqBody1 creds]
  by (simp add: register_def Let_def)

theorem register_twice_conflict_witness:
  "register (snd (register validCredentials (authBody ''alice'' ''first1!''))) (authBody ''alice'' ''second2!'') =
     ((409, [(''error'', JStr ''Username already taken'')]),
      validCredentials @ [\<lparr>username = JStr ''alice'', password = JStr ''first1!''\<rparr>])"
  using register_twice_conflict [of "authBody ''alice'' ''second2!''" "authBody ''alice'' ''first1!''" validCredentials]
  by (simp add: authBody_fields register_def validCredentials_def)

text \<open>
  C4 (as the code has it). With a username that no element of the array carries,
  \<^verbatim>\<open>register\<close> appends the credential and answers 201 with a body holding the
  message only: the source leaves the token out on purpose ("we'll just send a 201
  Created response without a token").
\<close>

theorem register_new_username:
  "\<not> list_ex (\<lambda>cred. username cred = reqBody ''username'') creds \<Longrightarrow>
   register creds reqBody =
     ((201, [(''message'', JStr ''User registered successfully'')]),
      creds @ [\<lparr>username = reqBody ''username'', password = reqBody ''password''\<rparr>])"
  by (simp add: register_def)

theorem register_new_username_witness:
  "\<not> list_ex (\<lambda>cred. username cred = authBody ''testuser'' ''testpassword123@'' ''username'') validCredentials \<and>
   register validCredentials (authBody ''testuser'' ''testpassword123@'') =
     ((201, [(''message'', JStr ''User registered successfully'')]),
      validCredentials @ [\<lparr>username = JStr ''testuser'', password = JStr ''testpassword123@''\<rparr>])"
  using register_new_username [of "authBody ''testuser'' ''testpassword123@''" validCredentials]
  by (simp add: authBody_fields validCredentials_def)

text \<open>
  The claim as the specification words it asks for a token in the body; the
  response to the first registration of "testuser" has none.
\<close>

theorem register_no_token_counterexample:
  "fst (fst (register validCredentials (authBody ''testuser'' ''testpassword123@''))) = 201 \<and>
   map_of (snd (fst (register validCredentials (authBody ''testuser'' ''testpassword123@'')))) ''token'' = None"
  by (simp add: register_def authBody_fields validCredentials_def)

text \<open>
  C5 (as the code has it). A registration that answers 201 keeps everything that
  was in the array and appends one element, whose password field is the request's
  password as it was sent. The module has no hashing step; \<^const>\<open>login\<close> compares
  the stored value with the submitted one.
\<close>

theorem register_stores_password_verbatim:
  "fst (fst (register creds reqBody)) = 201 \<Longrightarrow>
   butlast (snd (register creds reqBody)) = creds \<and>
   username (last (snd (register creds reqBody))) = reqBody ''username'' \<and>
   password (last (snd (register creds reqBody))) = reqBody ''password''"
  by (simp add: register_def Let_def split: if_splits)

theorem register_stores_password_verbatim_witness:
  "fst (fst (register validCredentials (authBody ''carol'' ''hunter2!''))) = 201 \<and>
   butlast (snd (register validCredentials (authBody ''carol'' ''hunter2!''))) = validCredentials \<and>
   username (last (snd (register validCredentials (authBody ''carol'' ''hunter2!'')))) = JStr ''carol'' \<and>
   password (last (snd (register validCredentials (authBody ''carol'' ''hunter2!'')))) = JStr ''hunter2!''"
proof -
  have ok: "fst (fst (register validCredentials (authBody ''carol'' ''hunter2!''))) = 201"
    by (simp add: register_def authBody_fields validCredentials_def)
  show ?thesis
    using ok register_stores_password_verbatim [OF ok]
    by (simp add: authBody_fields)
qed

text \<open>
  The plaintext "hunter2!" is what the array holds after the registration.
\<close>

theorem register_stores_plaintext_counterexample:
  "snd (register validCredentials (authBody ''carol'' ''hunter2!'')) =
     validCredentials @ [\<lparr>username = JStr ''carol'', password = JStr ''hunter2!''\<rparr>]"
  by (simp add: register_def authBody_fields validCredentials_def)

text \<open>
  C6. A login whose username no element carries, and a login whose username is
  present but whose password matches no element with that username, get the same
  response: 401 with "Invalid username or password".
\<close>

theorem login_failures_indistinguishable:
  "\<not> list_ex (\<lambda>cred. username cred = absent ''username'') creds \<Longrightarrow>
   list_ex (\<lambda>cred. username cred = wrong ''username'') creds \<Longrightarrow>
   \<not> list_ex (\<lambda>cred. username cred = wrong ''username'' \<and> password cred = wrong ''password'') creds \<Longrightarrow>
   login creds absent = (401, [(''error'', JStr ''Invalid username or password'')]) \<and>
   login creds wrong = login creds absent"
  by (auto simp: login_def Let_def list_ex_iff)

theorem login_failures_indistinguishable_witness:
  "login validCredentials (authBody ''nobody'' ''Password123!'') =
     (401, [(''error'', JStr ''Invalid username or password'')]) \<and>
   login validCredentials (authBody ''user2'' ''guess'') =
     login validCredentials (authBody ''nobody'' ''Password123!'')"
  using login_failures_indistinguishable
    [of "authBody ''nobody'' ''Password123!''" validCredentials "authBody ''user2'' ''guess''"]
  by (simp add: authBody_fields validCredentials_def)

text \<open>
  C7. If no element carries the username, \<^verbatim>\<open>register\<close> answers 201, and a
  \<^verbatim>\<open>login\<close> with the same body on the array it leaves answers 200 with a token.
\<close>

theorem register_then_login:
  "\<not> list_ex (\<lambda>cred. username cred = reqBody ''username'') creds \<Longrightarrow>
   fst (fst (register creds reqBody)) = 201 \<and>
   login (snd (register creds reqBody)) reqBody = (200, [(''token'', JStr ''exampleToken'')])"
  by (simp add: register_def login_def Let_def generateToken_def list_ex_append_single)

theorem register_then_login_witness:
  "fst (fst (register validCredentials (authBody ''dave'' ''pw4dave#''))) = 201 \<and>
   login (snd (register validCredentials (authBody ''dave'' ''pw4dave#''))) (authBody ''dave'' ''pw4dave#'') =
     (200, [(''token'', JStr ''exampleToken'')])"
  using register_then_login [of "authBody ''dave'' ''pw4dave#''" validCredentials]
  by (simp add: authBody_fields validCredentials_def)

text \<open>
  C10. \<^verbatim>\<open>generateToken\<close> returns "exampleToken" whatever the username, and any
  two logins that answer 200, on any contents of the array and for any users, send
  the same body: that token.
\<close>

theorem login_token_constant:
  "generateToken uname = ''exampleToken'' \<and>
   (fst (login creds1 reqBody1) = 200 \<and> fst (login creds2 reqBody2) = 200 \<longrightarrow>
    snd (login creds1 reqBody1) = [(''token'', JStr ''exampleToken'')] \<and>
    snd (login creds2 reqBody2) = snd (login creds1 reqBody1))"
  by (simp add: login_def Let_def generateToken_def)

theorem login_token_constant_witness:
  "fst (login validCredentials (authBody ''user_name123'' ''Password123!'')) = 200 \<and>
   fst (login validCredentials (authBody ''user2'' ''password2@'')) = 200 \<and>
   snd (login validCredentials (authBody ''user_name123'' ''Password123!'')) = [(''token'', JStr ''exampleToken'')] \<and>
   snd (login validCredentials (authBody ''user2'' ''password2@'')) =
     snd (login validCredentials (authBody ''user_name123'' ''Password123!''))"
proof -
  have a: "fst (login validCredentials (authBody ''user_name123'' ''Password123!'')) = 200"
    by (simp add: login_def authBody_fields validCredentials_def)
  have b: "fst (login validCredentials (authBody ''user2'' ''password2@'')) = 200"
    by (simp add: login_def authBody_fields validCredentials_def)
  show ?thesis
    using a b login_token_constant
      [of JUndefined validCredentials "authBody ''user_name123'' ''Password123!''"
          validCredentials "authBody ''user2'' ''password2@''"]
    by simp
qed

section \<open>Properties of the validation middleware\<close>

text \<open>
  C8 (as the code has it). \<^verbatim>\<open>validateFuelQuote\<close> tests presence, not sign. It
  answers 400 exactly when \<^verbatim>\<open>gallonsRequested\<close> or \<^verbatim>\<open>deliveryDate\<close> is falsy
  (absent, null, false, zero or the empty string) and calls \<^verbatim>\<open>next()\<close> exactly when
  both are truthy. So a numeric \<^verbatim>\<open>gallonsRequested\<close> is handed on exactly when it is
  not zero and the delivery date is present, negative numbers included; zero or a
  missing \<^verbatim>\<open>gallonsRequested\<close> is answered 400 whatever the date, and a missing
  date is answered 400 whatever the gallons.
\<close>

theorem validateFuelQuote_presence_only:
  "(validateFuelQuote reqBody =
      Respond (400, [(''error'', JStr ''Gallons requested and delivery date are required'')])) =
     (\<not> truthy (reqBody ''gallonsRequested'') \<or> \<not> truthy (reqBody ''deliveryDate'')) \<and>
   (validateFuelQuote reqBody = Next) =
     (truthy (reqBody ''gallonsRequested'') \<and> truthy (reqBody ''deliveryDate'')) \<and>
   (reqBody ''gallonsRequested'' = JNum g \<longrightarrow>
      (validateFuelQuote reqBody = Next) = (g \<noteq> 0 \<and> truthy (reqBody ''deliveryDate''))) \<and>
   (reqBody ''gallonsRequested'' = JUndefined \<or> reqBody ''gallonsRequested'' = JNum 0 \<or>
    reqBody ''deliveryDate'' = JUndefined \<longrightarrow>
      validateFuelQuote reqBody =
        Respond (400, [(''error'', JStr ''Gallons requested and delivery date are required'')]))"
  by (auto simp: validateFuelQuote_def)

theorem validateFuelQuote_presence_only_witness:
  "validateFuelQuote (emptyBody(''gallonsRequested'' := JNum 0, ''deliveryDate'' := JStr ''2024-04-10'')) =
     Respond (400, [(''error'', JStr ''Gallons requested and delivery date are required'')]) \<and>
   validateFuelQuote (emptyBody(''gallonsRequested'' := JNum 100)) =
     Respond (400, [(''error'', JStr ''Gallons requested and delivery date are required'')]) \<and>
   validateFuelQuote (emptyBody(''deliveryDate'' := JStr ''2024-04-10'')) =
     Respond (400, [(''error'', JStr ''Gallons requested and delivery date are required'')]) \<and>
   validateFuelQuote (emptyBody(''gallonsRequested'' := JNum 100, ''deliveryDate'' := JStr ''2024-04-10'')) = Next"
  using validateFuelQuote_presence_only
    [of "emptyBody(''gallonsRequested'' := JNum 0, ''deliveryDate'' := JStr ''2024-04-10'')" 0]
    validateFuelQuote_presence_only [of "emptyBody(''gallonsRequested'' := JNum 100)" 100]
    validateFuelQuote_presence_only [of "emptyBody(''deliveryDate'' := JStr ''2024-04-10'')" 0]
    validateFuelQuote_presence_only
    [of "emptyBody(''gallonsRequested'' := JNum 100, ''deliveryDate'' := JStr ''2024-04-10'')" 100]
  by (simp add: emptyBody_def)

text \<open>
  A request for minus five gallons with a delivery date reaches the next handler.
\<close>

theorem validateFuelQuote_negative_counterexample:
  "validateFuelQuote (emptyBody(''gallonsRequested'' := JNum (- 5), ''deliveryDate'' := JStr ''2024-04-10'')) = Next"
  by (simp add: validateFuelQuote_def)

section \<open>Properties of the quote operations\<close>

lemma round2_idem: "round2 (round2 x) = round2 x"
  by (simp add: round2_def)

lemma listQuotesForUser_sorted:
  "sorted_wrt (\<lambda>a b. created_at b \<le> created_at a) (listQuotesForUser db uid)"
  unfolding listQuotesForUser_def
  using sorted_sort_key [of created_at "filter (\<lambda>q. userID q = uid) (fuel_quote db)"]
  by (simp add: sorted_wrt_rev sorted_map)

lemma listQuotesForUser_mset:
  "mset (listQuotesForUser db uid) = filter_mset (\<lambda>q. userID q = uid) (mset (fuel_quote db))"
  unfolding listQuotesForUser_def by simp

text \<open>
  C2. Every quote that \<^verbatim>\<open>createQuote\<close> stores and returns has a price per gallon
  that is already rounded to two decimals (rounding it again changes nothing), namely
  the rounded value of the rate table, and a total that is \<open>round2\<close> of that rounded
  price times the gallons requested. The concrete run below has an unrounded rate of
  1.737: the total is 1740, from the rounded 1.74, and not 1737.
\<close>

theorem createQuote_total_from_rounded_price:
  assumes "createQuote rates fault now db uname gallons address date dest = (Inr q, db')"
  shows "totalAmountDue q = round2 (pricePerGallon q * gallonsRequested q) \<and>
         round2 (pricePerGallon q) = pricePerGallon q \<and>
         pricePerGallon q = round2 (rates gallons dest date (0 < countQuotesForUser db (userID q))) \<and>
         gallonsRequested q = gallons \<and>
         fuel_quote db' = fuel_quote db @ [q]"
  using assms
  by (auto simp: createQuote_def insertQuote_def Let_def calculatePricePerGallon_def
      calculateTotalPrice_def round2_idem split: if_splits option.splits)

theorem createQuote_total_from_rounded_price_witness:
  "createQuote (\<lambda>g s d h. 1737 / 1000) noFaults 40 exampleStore ''testuser'' 1000 ''123 Main St'' ''2024-04-10'' ''TX'' =
     (Inr \<lparr>quote_id = 4, userID = 1, gallonsRequested = 1000, deliveryAddress = ''123 Main St'',
           deliveryDate = ''2024-04-10'', pricePerGallon = 174 / 100, totalAmountDue = 1740,
           created_at = 40\<rparr>,
      exampleStore\<lparr>fuel_quote := fuel_quote exampleStore @
           [\<lparr>quote_id = 4, userID = 1, gallonsRequested = 1000, deliveryAddress = ''123 Main St'',
             deliveryDate = ''2024-04-10'', pricePerGallon = 174 / 100, totalAmountDue = 1740,
             created_at = 40\<rparr>], insertId := 5\<rparr>) \<and>
   (1740 :: rat) = round2 (174 / 100 * 1000) \<and>
   round2 (174 / 100) = 174 / 100 \<and>
   round2 (1737 / 1000 * 1000) = 1737"
proof -
  have r: "round2 (1737 / 1000) = 174 / 100"
    by (simp add: round2_def round_def floor_eq_iff)
  have r': "round2 1740 = 1740"
    by (simp add: round2_def)
  have run: "createQuote (\<lambda>g s d h. 1737 / 1000) noFaults 40 exampleStore ''testuser'' 1000 ''123 Main St'' ''2024-04-10'' ''TX'' =
     (Inr \<lparr>quote_id = 4, userID = 1, gallonsRequested = 1000, deliveryAddress = ''123 Main St'',
           deliveryDate = ''2024-04-10'', pricePerGallon = 174 / 100, totalAmountDue = 1740,
           created_at = 40\<rparr>,
      exampleStore\<lparr>fuel_quote := fuel_quote exampleStore @
           [\<lparr>quote_id = 4, userID = 1, gallonsRequested = 1000, deliveryAddress = ''123 Main St'',
             deliveryDate = ''2024-04-10'', pricePerGallon = 174 / 100, totalAmountDue = 1740,
             created_at = 40\<rparr>], insertId := 5\<rparr>)"
    by (simp add: createQuote_def noFaults_def findAccountByUsername_def countQuotesForUser_def
        insertQuote_def calculatePricePerGallon_def calculateTotalPrice_def r r' exampleStore_def
        exampleQuote_def Let_def)
  show ?thesis
    using run createQuote_total_from_rounded_price [OF run]
    by (simp add: round2_def)
qed

text \<open>
  C9. When the store answers, \<^verbatim>\<open>getQuoteHistory\<close> succeeds with status 200 and its
  rows are exactly the quotes of the table whose owner is the account of the username
  (each as often as the table holds it), in descending order of \<open>created_at\<close>. With
  no such quote the result is the empty list, still with status 200.
\<close>

theorem getQuoteHistory_owned_most_recent_first:
  assumes "\<not> fault ListQuotes"
  shows "\<exists>rows. getQuoteHistory fault db uname = Inr rows \<and>
           getQuoteHistoryStatus (getQuoteHistory fault db uname) = 200 \<and>
           mset rows =
             filter_mset (\<lambda>q. Some (userID q) = findAccountByUsername db uname) (mset (fuel_quote db)) \<and>
           sorted_wrt (\<lambda>a b. created_at b \<le> created_at a) rows"
proof (cases "findAccountByUsername db uname")
  case None
  then show ?thesis
    using assms by (simp add: getQuoteHistory_def)
next
  case (Some uid)
  show ?thesis
    using assms Some
    by (simp add: getQuoteHistory_def listQuotesForUser_sorted listQuotesForUser_mset)
qed

theorem getQuoteHistory_owned_most_recent_first_witness:
  "getQuoteHistory noFaults exampleStore ''testuser'' = Inr [exampleQuote 3 1 30, exampleQuote 1 1 10] \<and>
   getQuoteHistoryStatus (getQuoteHistory noFaults exampleStore ''testuser'') = 200 \<and>
   getQuoteHistory noFaults exampleStore ''newuser'' = Inr [] \<and>
   getQuoteHistoryStatus (getQuoteHistory noFaults exampleStore ''newuser'') = 200"
  using getQuoteHistory_owned_most_recent_first [of noFaults exampleStore "''testuser''"]
    getQuoteHistory_owned_most_recent_first [of noFaults exampleStore "''newuser''"]
  by (simp add: getQuoteHistory_def noFaults_def findAccountByUsername_def listQuotesForUser_def
      exampleStore_def exampleQuote_def)

end
